theory Spec2Isabelle
  imports Complex_Main
begin

section \<open>Python values, equality and exceptions\<close>

text \<open>
  The two runners of the repository (\<^verbatim>\<open>src/core/aync_test_runner.py\<close> and
  \<^verbatim>\<open>src/core/logic.py\<close>) are embedded as HOL functions. A Python \<^verbatim>\<open>str\<close> is the
  list of its Unicode code points, so that the Cyrillic messages of the source are kept
  exactly. The values a graded function takes and returns are the built-in ones below;
  a finite \<^verbatim>\<open>float\<close> denotes a rational number (\<^verbatim>\<open>nan\<close> and the infinities are
  outside the model).
\<close>

type_synonym pystr = "nat list"

datatype pyval =
    PNone
  | PBool bool
  | PInt int
  | PFloat rat
  | PStr pystr
  | PList "pyval list"

text \<open>
  Python's \<^verbatim>\<open>==\<close> on these values, as used by \<^verbatim>\<open>passed = result == expected_output\<close>:
  \<^verbatim>\<open>bool\<close>, \<^verbatim>\<open>int\<close> and \<^verbatim>\<open>float\<close> compare by their exact numeric value whatever
  their type (\<^verbatim>\<open>20.0 == 20\<close> and \<^verbatim>\<open>True == 1\<close> hold), strings by their code points,
  lists element by element, \<^verbatim>\<open>None\<close> only equals \<^verbatim>\<open>None\<close>.
\<close>

fun num_of :: "pyval \<Rightarrow> rat option" where
  "num_of (PBool b) = Some (if b then 1 else 0)"
| "num_of (PInt i) = Some (of_int i)"
| "num_of (PFloat r) = Some r"
| "num_of _ = None"

fun py_eq :: "pyval \<Rightarrow> pyval \<Rightarrow> bool"
  and py_eq_list :: "pyval list \<Rightarrow> pyval list \<Rightarrow> bool" where
  "py_eq PNone PNone = True"
| "py_eq (PStr s) (PStr t) = (s = t)"
| "py_eq (PList xs) (PList ys) = py_eq_list xs ys"
| "py_eq a b =
     (case num_of a of
        None \<Rightarrow> False
      | Some x \<Rightarrow> (case num_of b of None \<Rightarrow> False | Some y \<Rightarrow> x = y))"
| "py_eq_list [] [] = True"
| "py_eq_list (x # xs) (y # ys) = (py_eq x y \<and> py_eq_list xs ys)"
| "py_eq_list _ _ = False"

text \<open>
  Exceptions. Only the part of the class hierarchy that the \<^verbatim>\<open>except\<close> clauses of the
  source tell apart is kept: \<^verbatim>\<open>asyncio.TimeoutError\<close>, \<^verbatim>\<open>SyntaxError\<close> (with its
  \<^verbatim>\<open>msg\<close> and \<^verbatim>\<open>lineno\<close> attributes) and every other class are subclasses of
  \<^verbatim>\<open>Exception\<close>; \<^verbatim>\<open>SystemExit\<close>, \<^verbatim>\<open>KeyboardInterrupt\<close> and
  \<^verbatim>\<open>asyncio.CancelledError\<close> derive from \<^verbatim>\<open>BaseException\<close> only, so that
  \<^verbatim>\<open>except Exception\<close> does not catch them. An exception value carries \<^verbatim>\<open>str(e)\<close>
  and the text \<^verbatim>\<open>traceback.format_exc()\<close> renders while it is handled.
\<close>

datatype exc_class =
    TimeoutErrorC
  | SyntaxErrorC pystr "int option"
  | ExceptionC
  | SystemExitC
  | KeyboardInterruptC
  | CancelledErrorC

fun is_Exception :: "exc_class \<Rightarrow> bool" where
  "is_Exception TimeoutErrorC = True"
| "is_Exception (SyntaxErrorC m l) = True"
| "is_Exception ExceptionC = True"
| "is_Exception SystemExitC = False"
| "is_Exception KeyboardInterruptC = False"
| "is_Exception CancelledErrorC = False"

record pyexc =
  cls :: exc_class
  str_e :: pystr
  tb :: pystr

section \<open>Coroutines and \<^verbatim>\<open>asyncio.wait_for\<close>\<close>

text \<open>
  What a call \<^verbatim>\<open>user_func(input_data)\<close> does once awaited. \<open>Completes c d k\<close>: left
  alone it finishes after \<open>d\<close> seconds, returning a value or raising (\<open>c\<close>); \<open>Never k\<close>:
  it never finishes. The flag \<open>k\<close> says whether the coroutine is cancellable: it waits at
  an \<^verbatim>\<open>await\<close> where the event loop can deliver a cancellation, and lets it through.
  A coroutine that holds the event loop (\<^verbatim>\<open>time.sleep\<close>, a CPU-bound loop) or that
  suppresses \<^verbatim>\<open>CancelledError\<close> and carries on is not cancellable. Two behaviours are
  outside these: a call that raises before a coroutine exists (a \<^verbatim>\<open>TypeError\<close> for a
  wrong arity), and a coroutine that answers the cancellation with a value different
  from the one it would have returned.
\<close>

datatype completion = Return pyval | Raise pyexc

datatype coroutine = Completes completion rat bool | Never bool

text \<open>
  What \<^verbatim>\<open>await asyncio.wait_for(aw, timeout=timeout)\<close> gives its caller: the value with
  the time the call took, the exception the coroutine raised, or the
  \<^verbatim>\<open>asyncio.TimeoutError\<close> of \<^verbatim>\<open>wait_for\<close> itself. \<^verbatim>\<open>wait_for\<close> cancels the task when
  the timeout elapses and waits until the cancellation has taken effect, so a coroutine
  that is not cancellable keeps running, and what it finally returns or raises is
  handed to the caller; \<open>None\<close> stands for an \<^verbatim>\<open>await\<close> that never returns. A
  coroutine that would finish exactly at the deadline is counted as timed out. With a
  timeout that is not positive, \<^verbatim>\<open>wait_for\<close> cancels the task before its first step:
  the coroutine never runs, whatever it is.
\<close>

datatype awaited = Returned pyval rat | Raised pyexc | Timed_out

fun finished :: "completion \<Rightarrow> rat \<Rightarrow> awaited" where
  "finished (Return v) d = Returned v d"
| "finished (Raise e) d = Raised e"

fun wait_for :: "coroutine \<Rightarrow> rat \<Rightarrow> awaited option" where
  "wait_for (Completes c d cancellable) timeout =
     (if timeout \<le> 0 then Some Timed_out
      else if d < timeout \<or> \<not> cancellable then Some (finished c d)
      else Some Timed_out)"
| "wait_for (Never cancellable) timeout =
     (if timeout \<le> 0 \<or> cancellable then Some Timed_out else None)"

section \<open>The concurrent test harness: \<^verbatim>\<open>run_single_test\<close>\<close>

text \<open>
  \<^verbatim>\<open>
  async def run_single_test(user_func, input_data, expected_output, timeout=3.0):
      try:
          start = time.perf_counter()
          result = await asyncio.wait_for(user_func(input_data), timeout=timeout)
          duration = time.perf_counter() - start
          passed = result == expected_output
          return {"input": input_data, "expected": expected_output, "result": result,
                  "passed": passed, "time": duration, "error": None}
      except asyncio.TimeoutError:
          return {"input": input_data, "expected": expected_output, "result": None,
                  "passed": False, "time": None,
                  "error": "TimeoutError: vypolnenie prevysilo limit vremeni"}
      except Exception:
          tb = traceback.format_exc()
          return {"input": input_data, "expected": expected_output, "result": None,
                  "passed": False, "time": None, "error": tb}
  \<close>
  (the message is Russian in the source and is kept code point by code point below).
  The dictionary is a record with the keys as fields; a Python \<^verbatim>\<open>None\<close> under
  \<^verbatim>\<open>"result"\<close> is \<open>PNone\<close>, under \<^verbatim>\<open>"time"\<close> and \<^verbatim>\<open>"error"\<close> it is \<open>None\<close>. The
  result of the function is \<open>None\<close> when the \<^verbatim>\<open>await\<close> never returns, \<open>Some (Inl e)\<close>
  when the exception \<open>e\<close> leaves the function, \<open>Some (Inr r)\<close> when it returns \<open>r\<close>.
\<close>

record test_result =
  input :: pyval
  expected :: pyval
  result :: pyval
  passed :: bool
  time :: "rat option"
  error :: "pystr option"

definition timeout_error_text :: pystr where
  "timeout_error_text = [84, 105, 109, 101, 111, 117, 116, 69, 114, 114, 111, 114, 58, 32, 1074, 1099, 1087, 1086, 1083, 1085, 1077, 1085, 1080, 1077, 32, 1087, 1088, 1077, 1074, 1099, 1089, 1080, 1083, 1086, 32, 1083, 1080, 1084, 1080, 1090, 32, 1074, 1088, 1077, 1084, 1077, 1085, 1080]"

definition default_timeout :: rat where
  "default_timeout = 3"

definition timed_out_result :: "pyval \<Rightarrow> pyval \<Rightarrow> test_result" where
  "timed_out_result input_data expected_output =
     \<lparr>input = input_data, expected = expected_output, result = PNone,
      passed = False, time = None, error = Some timeout_error_text\<rparr>"

definition run_single_test ::
  "(pyval \<Rightarrow> coroutine) \<Rightarrow> pyval \<Rightarrow> pyval \<Rightarrow> rat \<Rightarrow> (pyexc + test_result) option" where
  "run_single_test user_func input_data expected_output timeout =
     (case wait_for (user_func input_data) timeout of
        None \<Rightarrow> None
      | Some (Returned v duration) \<Rightarrow>
          Some (Inr \<lparr>input = input_data, expected = expected_output, result = v,
                     passed = py_eq v expected_output, time = Some duration,
                     error = None\<rparr>)
      | Some Timed_out \<Rightarrow> Some (Inr (timed_out_result input_data expected_output))
      | Some (Raised e) \<Rightarrow>
          (if cls e = TimeoutErrorC
           then Some (Inr (timed_out_result input_data expected_output))
           else if is_Exception (cls e)
           then Some (Inr \<lparr>input = input_data, expected = expected_output, result = PNone,
                           passed = False, time = None, error = Some (tb e)\<rparr>)
           else Some (Inl e)))"

section \<open>The concurrent test harness: \<^verbatim>\<open>run_all_tests\<close>\<close>

text \<open>
  \<^verbatim>\<open>
  async def run_all_tests(user_func, test_cases):
      tasks = [run_single_test(user_func, inp, out) for inp, out in test_cases]
      results = await asyncio.gather(*tasks)
      return results
  \<close>
  \<^verbatim>\<open>asyncio.gather\<close> runs the tasks concurrently. Each time one of them finishes, its
  callback looks at it: an exception is passed on to the caller of \<^verbatim>\<open>gather\<close> at
  once, a result stays with its task; when all have finished the results are read off
  the tasks in the order of the arguments. The order in which the tasks finish belongs
  to the scheduler and is a parameter here (\<open>order\<close>, the indices of the tasks in the
  order of their completion). A task that never finishes has no place in it; when one
  is missing at the end, \<^verbatim>\<open>gather\<close> never returns (\<open>None\<close>).
\<close>

fun gather_loop ::
  "(pyexc + test_result) option list \<Rightarrow> nat list \<Rightarrow> test_result option list
     \<Rightarrow> pyexc + test_result option list" where
  "gather_loop tasks [] slots = Inr slots"
| "gather_loop tasks (i # order) slots =
     (if i < length tasks then
        (case tasks ! i of
           None \<Rightarrow> gather_loop tasks order slots
         | Some (Inl e) \<Rightarrow> Inl e
         | Some (Inr r) \<Rightarrow> gather_loop tasks order (slots[i := Some r]))
      else gather_loop tasks order slots)"

definition gather ::
  "nat list \<Rightarrow> (pyexc + test_result) option list \<Rightarrow> (pyexc + test_result list) option" where
  "gather order tasks =
     (case gather_loop tasks order (replicate (length tasks) None) of
        Inl e \<Rightarrow> Some (Inl e)
      | Inr slots \<Rightarrow>
          if list_all (\<lambda>s. s \<noteq> None) slots then Some (Inr (map the slots)) else None)"

definition run_all_tests ::
  "nat list \<Rightarrow> (pyval \<Rightarrow> coroutine) \<Rightarrow> (pyval \<times> pyval) list
     \<Rightarrow> (pyexc + test_result list) option" where
  "run_all_tests order user_func test_cases =
     gather order
       (map (\<lambda>(inp, out). run_single_test user_func inp out default_timeout) test_cases)"

text \<open>
  In \<open>run_all_tests\<close> above every \<^verbatim>\<open>await\<close> comes back as \<open>wait_for\<close> says for its call
  alone. The tasks share one event loop, though: a call that holds the loop delays the
  timers of the other tasks, and what the \<^verbatim>\<open>await\<close> of a task comes back with then
  depends on the other tasks too. For the properties that must hold whatever the loop
  makes of the calls, the same two functions are given with the outcomes of the
  \<^verbatim>\<open>await\<close>s as a parameter: \<open>run_single_test_awaited\<close> is the body of
  \<^verbatim>\<open>run_single_test\<close> once its \<^verbatim>\<open>await\<close> has come back with \<open>a\<close> (\<open>None\<close>: it never
  does), \<open>run_all_tests_awaited\<close> gathers the tasks of a run in which the \<^verbatim>\<open>await\<close> of
  task \<open>k\<close> came back with \<open>awaits ! k\<close>.
\<close>

definition run_single_test_awaited ::
  "awaited option \<Rightarrow> pyval \<Rightarrow> pyval \<Rightarrow> (pyexc + test_result) option" where
  "run_single_test_awaited a input_data expected_output =
     (case a of
        None \<Rightarrow> None
      | Some (Returned v duration) \<Rightarrow>
          Some (Inr \<lparr>input = input_data, expected = expected_output, result = v,
                     passed = py_eq v expected_output, time = Some duration,
                     error = None\<rparr>)
      | Some Timed_out \<Rightarrow> Some (Inr (timed_out_result input_data expected_output))
      | Some (Raised e) \<Rightarrow>
          (if cls e = TimeoutErrorC
           then Some (Inr (timed_out_result input_data expected_output))
           else if is_Exception (cls e)
           then Some (Inr \<lparr>input = input_data, expected = expected_output, result = PNone,
                           passed = False, time = None, error = Some (tb e)\<rparr>)
           else Some (Inl e)))"

definition run_all_tests_awaited ::
  "nat list \<Rightarrow> awaited option list \<Rightarrow> (pyval \<times> pyval) list
     \<Rightarrow> (pyexc + test_result list) option" where
  "run_all_tests_awaited order awaits test_cases =
     gather order
       (map (\<lambda>((inp, out), a). run_single_test_awaited a inp out) (zip test_cases awaits))"

section \<open>The orchestrator: \<^verbatim>\<open>validate_user_code\<close>\<close>






























section \<open>The isolated runner: \<^verbatim>\<open>run_with_timeout\<close>\<close>

text \<open>
  \<^verbatim>\<open>
  def run_user_code_in_process(queue, user_code_str, input_data):
      try:
          loop = asyncio.new_event_loop()
          asyncio.set_event_loop(loop)
          result = loop.run_until_complete(process_data(input_data))
          queue.put(("result", result))
      except Exception as e:
          queue.put(("error", str(e)))
  \<close>
  \<^verbatim>\<open>process_data\<close> is the module-level name bound by
  \<^verbatim>\<open>from user_code import process_data\<close>; the file \<^verbatim>\<open>user_code.py\<close> is rewritten
  with every submission, so the function is a parameter. The worker is described by
  what it does when nobody stops it: the message it puts on the queue, if any, and the
  time after its start at which it exits (the \<^verbatim>\<open>put\<close> is its last action). An
  exception outside \<^verbatim>\<open>Exception\<close> ends the worker with no message.
\<close>

type_synonym message = "pystr \<times> pyval"

definition tag_result :: pystr where
  "tag_result = [114, 101, 115, 117, 108, 116]"

definition tag_error :: pystr where
  "tag_error = [101, 114, 114, 111, 114]"

definition tag_timeout :: pystr where
  "tag_timeout = [116, 105, 109, 101, 111, 117, 116]"

definition timeout_text :: pystr where
  "timeout_text = [1055, 1088, 1077, 1074, 1099, 1096, 1077, 1085, 1086, 32, 1074, 1088, 1077, 1084, 1103, 32, 1074, 1099, 1087, 1086, 1083, 1085, 1077, 1085, 1080, 1103]"

definition no_result_text :: pystr where
  "no_result_text = [1053, 1077, 1090, 32, 1088, 1077, 1079, 1091, 1083, 1100, 1090, 1072, 1090, 1072]"

record worker =
  puts_message :: "message option"
  exits_at :: "rat option"

definition run_user_code_in_process ::
  "(pyval \<Rightarrow> coroutine) \<Rightarrow> nat \<Rightarrow> pystr \<Rightarrow> pyval \<Rightarrow> worker" where
  "run_user_code_in_process process_data queue user_code_str input_data =
     (case process_data input_data of
        Completes (Return v) d k \<Rightarrow>
          \<lparr>puts_message = Some (tag_result, v), exits_at = Some d\<rparr>
      | Completes (Raise e) d k \<Rightarrow>
          if is_Exception (cls e)
          then \<lparr>puts_message = Some (tag_error, PStr (str_e e)), exits_at = Some d\<rparr>
          else \<lparr>puts_message = None, exits_at = Some d\<rparr>
      | Never k \<Rightarrow> \<lparr>puts_message = None, exits_at = None\<rparr>)"

text \<open>
  The queues of \<^verbatim>\<open>multiprocessing\<close> live in a store: a queue is the index of its
  contents in the list of all queues created so far, \<^verbatim>\<open>multiprocessing.Queue()\<close>
  appends a new empty one. Each queue counts its \<^verbatim>\<open>put\<close>s and \<^verbatim>\<open>get\<close>s. A message
  is on the queue from the moment the worker has put it: the delay of the queue's
  feeder thread, which can make \<^verbatim>\<open>queue.empty()\<close> miss a message, is left out.
\<close>

record queue =
  items :: "message list"
  puts :: nat
  gets :: nat

type_synonym store = "queue list"

definition Queue :: "store \<Rightarrow> nat \<times> store" where
  "Queue h = (length h, h @ [\<lparr>items = [], puts = 0, gets = 0\<rparr>])"

definition queue_put :: "store \<Rightarrow> nat \<Rightarrow> message \<Rightarrow> store" where
  "queue_put h q m = h[q := (h ! q)\<lparr>items := items (h ! q) @ [m], puts := Suc (puts (h ! q))\<rparr>]"

definition queue_empty :: "store \<Rightarrow> nat \<Rightarrow> bool" where
  "queue_empty h q = (items (h ! q) = [])"

definition queue_get :: "store \<Rightarrow> nat \<Rightarrow> message \<times> store" where
  "queue_get h q =
     (hd (items (h ! q)),
      h[q := (h ! q)\<lparr>items := tl (items (h ! q)), gets := Suc (gets (h ! q))\<rparr>])"

text \<open>
  A process is its worker and the time at which \<^verbatim>\<open>terminate()\<close> first sent it
  SIGTERM. How long the worker takes to die after the signal belongs to the operating
  system and the worker: \<open>term_delay\<close> is \<open>Some \<delta>\<close> when it is gone \<open>\<delta>\<close> seconds
  after the signal, \<open>None\<close> when the signal does not end it (a worker that ignores or
  blocks SIGTERM). Times count from \<^verbatim>\<open>p.start()\<close>. \<^verbatim>\<open>join\<close> with a timeout returns the
  time at which it returns; \<^verbatim>\<open>join\<close> without one returns \<open>None\<close> when it never does.
\<close>

record process =
  target :: worker
  sigterm_at :: "rat option"

fun earlier :: "rat option \<Rightarrow> rat option \<Rightarrow> rat option" where
  "earlier None y = y"
| "earlier (Some a) None = Some a"
| "earlier (Some a) (Some b) = Some (min a b)"

definition killed_at :: "rat option \<Rightarrow> process \<Rightarrow> rat option" where
  "killed_at term_delay p =
     (case sigterm_at p of
        None \<Rightarrow> None
      | Some s \<Rightarrow> (case term_delay of None \<Rightarrow> None | Some \<delta> \<Rightarrow> Some (s + \<delta>)))"

definition dies_at :: "rat option \<Rightarrow> process \<Rightarrow> rat option" where
  "dies_at term_delay p = earlier (exits_at (target p)) (killed_at term_delay p)"

definition is_alive :: "rat option \<Rightarrow> process \<Rightarrow> rat \<Rightarrow> bool" where
  "is_alive term_delay p now = (case dies_at term_delay p of None \<Rightarrow> True | Some d \<Rightarrow> now < d)"

definition terminate :: "process \<Rightarrow> rat \<Rightarrow> process" where
  "terminate p now = (if sigterm_at p = None then p\<lparr>sigterm_at := Some now\<rparr> else p)"

definition wait_until :: "rat option \<Rightarrow> rat \<Rightarrow> rat \<Rightarrow> rat" where
  "wait_until done now timeout =
     (case done of
        None \<Rightarrow> now + max 0 timeout
      | Some d \<Rightarrow> min (max now d) (now + max 0 timeout))"

definition join_timeout :: "rat option \<Rightarrow> process \<Rightarrow> rat \<Rightarrow> rat \<Rightarrow> rat" where
  "join_timeout term_delay p now timeout = wait_until (dies_at term_delay p) now timeout"

definition join :: "rat option \<Rightarrow> process \<Rightarrow> rat \<Rightarrow> rat option" where
  "join term_delay p now =
     (case dies_at term_delay p of None \<Rightarrow> None | Some d \<Rightarrow> Some (max now d))"

text \<open>
  The message the worker has put on its queue: its own, when it reached its exit
  before a termination ended it.
\<close>

definition delivered :: "rat option \<Rightarrow> process \<Rightarrow> message option" where
  "delivered term_delay p =
     (case exits_at (target p) of
        None \<Rightarrow> None
      | Some d \<Rightarrow> if dies_at term_delay p = Some d then puts_message (target p) else None)"

definition worker_put :: "rat option \<Rightarrow> process \<Rightarrow> store \<Rightarrow> nat \<Rightarrow> store" where
  "worker_put term_delay p h q =
     (case delivered term_delay p of None \<Rightarrow> h | Some m \<Rightarrow> queue_put h q m)"

text \<open>
  \<^verbatim>\<open>
  def run_with_timeout(user_code_str, input_data, timeout_sec):
      queue = multiprocessing.Queue()
      p = multiprocessing.Process(
          target=run_user_code_in_process, args=(queue, user_code_str, input_data))
      p.start()

      def join_process():
          p.join(timeout_sec)
          if p.is_alive():
              p.terminate()
              p.join()

      thread = threading.Thread(target=join_process)
      thread.start()
      thread.join(timeout_sec + 0.1)

      if p.is_alive():
          p.terminate()
          p.join()
          return "timeout", "<Time limit exceeded>"

      if not queue.empty():
          return queue.get()
      else:
          return "error", "<No result>"
  \<close>
  \<open>join_process\<close> is the body of the watchdog thread: it gives the process as the thread
  leaves it and the time at which the thread ends (\<open>None\<close>: never). The thread sends its
  signal at \<^verbatim>\<open>timeout_sec\<close> at the latest and the caller looks at the process at
  \<^verbatim>\<open>timeout_sec + 0.1\<close> at the earliest, or after the thread has ended, so the caller
  sees the process as the thread left it. \<open>run_with_timeout\<close> returns the pair of the
  tuple it returns with the time at which it returns (\<open>None\<close>: the caller stays blocked
  for ever), and the store.
\<close>

text \<open>
  The worker hands its message to the queue through a pipe, and it exits once the
  message has passed. The model takes every message to pass at once. That is so for a
  result that is \<^verbatim>\<open>None\<close>, a \<^verbatim>\<open>bool\<close>, a \<^verbatim>\<open>float\<close> or an integer of 64 bits (\<open>scalar\<close>),
  whose message has a few dozen bytes; a message larger than the buffer of the pipe
  keeps the worker from exiting until somebody reads it, which is left out.
\<close>

fun scalar :: "pyval \<Rightarrow> bool" where
  "scalar PNone = True"
| "scalar (PBool b) = True"
| "scalar (PInt n) = (- (2 ^ 63) \<le> n \<and> n < 2 ^ 63)"
| "scalar (PFloat r) = True"
| "scalar (PStr s) = False"
| "scalar (PList xs) = False"

definition join_process :: "rat option \<Rightarrow> process \<Rightarrow> rat \<Rightarrow> process \<times> rat option" where
  "join_process term_delay p timeout_sec =
     (let t = join_timeout term_delay p 0 timeout_sec
      in if is_alive term_delay p t
         then (let p' = terminate p t in (p', join term_delay p' t))
         else (p, Some t))"

definition run_with_timeout ::
  "(pyval \<Rightarrow> coroutine) \<Rightarrow> rat option \<Rightarrow> store \<Rightarrow> pystr \<Rightarrow> pyval \<Rightarrow> rat
     \<Rightarrow> (message \<times> rat) option \<times> store" where
  "run_with_timeout process_data term_delay h user_code_str input_data timeout_sec =
     (let (queue, h1) = Queue h;
          p = \<lparr>target = run_user_code_in_process process_data queue user_code_str input_data,
               sigterm_at = None\<rparr>;
          (p1, thread_end) = join_process term_delay p timeout_sec;
          now = wait_until thread_end 0 (timeout_sec + 1 / 10)
      in if is_alive term_delay p1 now
         then (let p2 = terminate p1 now;
                   h2 = worker_put term_delay p2 h1 queue
               in (case join term_delay p2 now of
                     None \<Rightarrow> (None, h2)
                   | Some t \<Rightarrow> (Some ((tag_timeout, PStr timeout_text), t), h2)))
         else (let h2 = worker_put term_delay p1 h1 queue
               in if \<not> queue_empty h2 queue
                  then (let (m, h3) = queue_get h2 queue in (Some (m, now), h3))
                  else (Some ((tag_error, PStr no_result_text), now), h2)))"

section \<open>Properties of \<^verbatim>\<open>run_single_test\<close>\<close>

lemma run_single_test_fields:
  "run_single_test user_func input_data expected_output timeout = Some (Inr r)
     \<Longrightarrow> input r = input_data \<and> expected r = expected_output"
  unfolding run_single_test_def timed_out_result_def
  by (auto split: option.splits awaited.splits if_splits)

text \<open>
  Claim C1, as the code has it. Whenever \<^verbatim>\<open>run_single_test\<close> returns a result, its
  \<^verbatim>\<open>passed\<close> flag is true if and only if the awaited call came back with a value (no
  timeout, no exception) and that value equals the expected one under Python's
  \<^verbatim>\<open>==\<close>. The comparison has no tolerance: a float equals an integer exactly when it
  denotes the same number, and two integers are equal only when they are the same. It
  is not strict in the types, though: \<^verbatim>\<open>==\<close> compares a float with an integer by
  value.
\<close>

theorem run_single_test_passed_iff:
  assumes "run_single_test user_func input_data expected_output timeout = Some (Inr r)"
  shows "(passed r \<longleftrightarrow>
            (\<exists>v d. wait_for (user_func input_data) timeout = Some (Returned v d)
                    \<and> py_eq v expected_output))
         \<and> (py_eq (PFloat x) (PInt n) \<longleftrightarrow> x = of_int n)
         \<and> (py_eq (PInt m) (PInt n) \<longleftrightarrow> m = n)"
  using assms unfolding run_single_test_def timed_out_result_def
  by (auto split: option.splits awaited.splits if_splits)

theorem run_single_test_passed_iff_witness:
  "run_single_test (\<lambda>x. Completes (Return (PInt 20)) (1 / 2) True)
       (PList [PInt 1, PInt 2, PInt 3, PInt 4]) (PInt 20) 3
     = Some (Inr \<lparr>input = PList [PInt 1, PInt 2, PInt 3, PInt 4], expected = PInt 20,
                  result = PInt 20, passed = True, time = Some (1 / 2), error = None\<rparr>)
   \<and> (\<exists>v d. wait_for (Completes (Return (PInt 20)) (1 / 2) True) 3 = Some (Returned v d)
              \<and> py_eq v (PInt 20))"
proof -
  let ?f = "\<lambda>x::pyval. Completes (Return (PInt 20)) (1 / 2) True"
  let ?i = "PList [PInt 1, PInt 2, PInt 3, PInt 4]"
  let ?r = "\<lparr>input = ?i, expected = PInt 20, result = PInt 20, passed = True,
             time = Some (1 / 2), error = None\<rparr>"
  have run: "run_single_test ?f ?i (PInt 20) 3 = Some (Inr ?r)"
    by (simp add: run_single_test_def)
  from run_single_test_passed_iff [OF run]
  have "\<exists>v d. wait_for (?f ?i) 3 = Some (Returned v d) \<and> py_eq v (PInt 20)"
    by simp
  with run show ?thesis by simp
qed

text \<open>
  The claim asks for strict equality with no coercion: a returned \<^verbatim>\<open>20.0\<close> against
  an expected \<^verbatim>\<open>20\<close> must not pass. On the code it passes, although the two values
  differ.
\<close>

theorem strict_equality_counterexample:
  "run_single_test (\<lambda>x. Completes (Return (PFloat 20)) (1 / 2) True)
       (PList [PInt 1, PInt 2, PInt 3, PInt 4]) (PInt 20) 3
     = Some (Inr \<lparr>input = PList [PInt 1, PInt 2, PInt 3, PInt 4], expected = PInt 20,
                  result = PFloat 20, passed = True, time = Some (1 / 2), error = None\<rparr>)
   \<and> PFloat 20 \<noteq> PInt 20"
  by (simp add: run_single_test_def)

section \<open>Properties of \<^verbatim>\<open>run_all_tests\<close>\<close>

text \<open>
  The slots \<^verbatim>\<open>gather\<close> fills only ever hold the result of their own task, whatever
  the order of completion.
\<close>

lemma gather_loop_slots:
  "gather_loop tasks order slots = Inr slots' \<Longrightarrow> length slots = length tasks \<Longrightarrow>
   (\<forall>i<length tasks. \<forall>r. slots ! i = Some r \<longrightarrow> tasks ! i = Some (Inr r)) \<Longrightarrow>
   length slots' = length tasks \<and>
   (\<forall>i<length tasks. \<forall>r. slots' ! i = Some r \<longrightarrow> tasks ! i = Some (Inr r))"
proof (induction order arbitrary: slots)
  case Nil
  then show ?case by simp
next
  case (Cons i order)
  show ?case
  proof (cases "i < length tasks")
    case False
    with Cons.prems have "gather_loop tasks order slots = Inr slots'" by simp
    from Cons.IH [OF this Cons.prems(2) Cons.prems(3)] show ?thesis .
  next
    case True
    show ?thesis
    proof (cases "tasks ! i")
      case None
      with True Cons.prems have "gather_loop tasks order slots = Inr slots'" by simp
      from Cons.IH [OF this Cons.prems(2) Cons.prems(3)] show ?thesis .
    next
      case (Some t)
      show ?thesis
      proof (cases t)
        case (Inl e)
        with Some True Cons.prems show ?thesis by simp
      next
        case (Inr r)
        with Some True Cons.prems
        have run: "gather_loop tasks order (slots[i := Some r]) = Inr slots'" by simp
        have len: "length (slots[i := Some r]) = length tasks"
          using Cons.prems(2) by simp
        have inv: "\<forall>j<length tasks. \<forall>r'. (slots[i := Some r]) ! j = Some r'
                     \<longrightarrow> tasks ! j = Some (Inr r')"
        proof (intro allI impI)
          fix j r'
          assume j: "j < length tasks" and eq: "(slots[i := Some r]) ! j = Some r'"
          show "tasks ! j = Some (Inr r')"
          proof (cases "j = i")
            case True
            with eq j Cons.prems(2) have "r' = r" by simp
            with True Some Inr show ?thesis by simp
          next
            case False
            with eq have "slots ! j = Some r'" by simp
            with Cons.prems(3) j show ?thesis by blast
          qed
        qed
        from Cons.IH [OF run len inv] show ?thesis .
      qed
    qed
  qed
qed

lemma gather_results:
  assumes "gather order tasks = Some (Inr results)"
  shows "length results = length tasks \<and>
         (\<forall>i<length tasks. tasks ! i = Some (Inr (results ! i)))"
proof -
  from assms obtain slots where
    loop: "gather_loop tasks order (replicate (length tasks) None) = Inr slots"
    and full: "list_all (\<lambda>s. s \<noteq> None) slots"
    and res: "results = map the slots"
    unfolding gather_def by (auto split: sum.splits if_splits)
  have "length slots = length tasks \<and>
        (\<forall>i<length tasks. \<forall>r. slots ! i = Some r \<longrightarrow> tasks ! i = Some (Inr r))"
    by (rule gather_loop_slots [OF loop]) simp_all
  moreover have "\<forall>i<length slots. slots ! i \<noteq> None"
    using full by (simp add: list_all_length)
  ultimately show ?thesis using res by auto
qed

lemma gather_loop_no_exception:
  "(\<forall>i<length tasks. \<forall>e. tasks ! i \<noteq> Some (Inl e)) \<Longrightarrow>
   gather_loop tasks order slots \<noteq> Inl e"
  by (induction order arbitrary: slots) (auto split: option.splits sum.splits)

lemma gather_no_exception:
  "(\<forall>i<length tasks. \<forall>e. tasks ! i \<noteq> Some (Inl e)) \<Longrightarrow> gather order tasks \<noteq> Some (Inl e)"
  unfolding gather_def
  using gather_loop_no_exception [of tasks]
  by (auto split: sum.splits if_splits)

lemma gather_loop_fills:
  "(\<forall>i<length tasks. \<exists>r. tasks ! i = Some (Inr r)) \<Longrightarrow> length slots = length tasks \<Longrightarrow>
   \<exists>slots'. gather_loop tasks order slots = Inr slots' \<and> length slots' = length tasks \<and>
     (\<forall>i<length tasks. (i \<in> set order \<or> slots ! i \<noteq> None) \<longrightarrow> slots' ! i \<noteq> None)"
proof (induction order arbitrary: slots)
  case Nil
  then show ?case by simp
next
  case (Cons i order)
  show ?case
  proof (cases "i < length tasks")
    case False
    from Cons.IH [OF Cons.prems] False show ?thesis by auto
  next
    case True
    with Cons.prems(1) obtain r where r: "tasks ! i = Some (Inr r)" by blast
    have len: "length (slots[i := Some r]) = length tasks" using Cons.prems(2) by simp
    from Cons.IH [OF Cons.prems(1) len] obtain slots' where
      s: "gather_loop tasks order (slots[i := Some r]) = Inr slots'"
         "length slots' = length tasks"
         "\<forall>j<length tasks. (j \<in> set order \<or> (slots[i := Some r]) ! j \<noteq> None)
            \<longrightarrow> slots' ! j \<noteq> None"
      by blast
    have "\<forall>j<length tasks. (j \<in> set (i # order) \<or> slots ! j \<noteq> None) \<longrightarrow> slots' ! j \<noteq> None"
    proof (intro allI impI)
      fix j
      assume j: "j < length tasks" and a: "j \<in> set (i # order) \<or> slots ! j \<noteq> None"
      have "j \<in> set order \<or> (slots[i := Some r]) ! j \<noteq> None"
      proof (cases "j = i")
        case True
        with j Cons.prems(2) show ?thesis by simp
      next
        case False
        with a show ?thesis by auto
      qed
      with s(3) j show "slots' ! j \<noteq> None" by blast
    qed
    with s(1) s(2) True r show ?thesis by simp
  qed
qed

lemma gather_returns:
  assumes "\<forall>i<length tasks. \<exists>r. tasks ! i = Some (Inr r)"
    and "{..<length tasks} \<subseteq> set order"
  shows "\<exists>results. gather order tasks = Some (Inr results)"
proof -
  from gather_loop_fills [OF assms(1), of "replicate (length tasks) None" order]
  obtain slots' where
    s: "gather_loop tasks order (replicate (length tasks) None) = Inr slots'"
       "length slots' = length tasks"
       "\<forall>i<length tasks. (i \<in> set order \<or> replicate (length tasks) None ! i \<noteq> None)
          \<longrightarrow> slots' ! i \<noteq> None"
    by auto
  have "\<forall>i<length slots'. slots' ! i \<noteq> None"
    using s(2) s(3) assms(2) by auto
  then have "list_all (\<lambda>s. s \<noteq> None) slots'" by (simp add: list_all_length)
  with s(1) show ?thesis by (simp add: gather_def)
qed

lemma run_all_tests_each:
  assumes "run_all_tests order user_func test_cases = Some (Inr results)"
  shows "length results = length test_cases \<and>
         (\<forall>i<length test_cases.
            run_single_test user_func (fst (test_cases ! i)) (snd (test_cases ! i))
              default_timeout = Some (Inr (results ! i)))"
proof -
  let ?tasks = "map (\<lambda>(inp, out). run_single_test user_func inp out default_timeout) test_cases"
  from assms have g: "gather order ?tasks = Some (Inr results)"
    by (simp add: run_all_tests_def)
  from gather_results [OF g]
  have len: "length results = length test_cases"
    and each: "\<forall>i<length test_cases. ?tasks ! i = Some (Inr (results ! i))"
    by simp_all
  from each have "\<forall>i<length test_cases.
      run_single_test user_func (fst (test_cases ! i)) (snd (test_cases ! i)) default_timeout
      = Some (Inr (results ! i))"
    by (simp add: case_prod_beta)
  with len show ?thesis by simp
qed

lemma run_all_tests_no_exception:
  assumes "\<forall>c\<in>set test_cases. \<forall>e. run_single_test user_func (fst c) (snd c) default_timeout
             \<noteq> Some (Inl e)"
  shows "run_all_tests order user_func test_cases \<noteq> Some (Inl e)"
proof -
  let ?tasks = "map (\<lambda>(inp, out). run_single_test user_func inp out default_timeout) test_cases"
  have "\<forall>i<length ?tasks. \<forall>e. ?tasks ! i \<noteq> Some (Inl e)"
    using assms by (auto simp: case_prod_beta)
  then have "gather order ?tasks \<noteq> Some (Inl e)" by (rule gather_no_exception)
  then show ?thesis by (simp add: run_all_tests_def)
qed

text \<open>
  Claim C4. Whatever the order in which the tasks complete, a report returned by
  \<^verbatim>\<open>run_all_tests\<close> has one result per test case, and the result at index \<open>i\<close> is the
  one \<^verbatim>\<open>run_single_test\<close> gives for case \<open>i\<close>, carrying its input and its expected
  value. The report is returned whenever every case yields a result and every task
  occurs in the order of completion.
\<close>

theorem run_all_tests_preserves_order:
  "(\<forall>results. run_all_tests order user_func test_cases = Some (Inr results) \<longrightarrow>
      length results = length test_cases \<and>
      (\<forall>i<length test_cases.
         input (results ! i) = fst (test_cases ! i) \<and>
         expected (results ! i) = snd (test_cases ! i) \<and>
         run_single_test user_func (fst (test_cases ! i)) (snd (test_cases ! i))
           default_timeout = Some (Inr (results ! i))))
   \<and> ((\<forall>c\<in>set test_cases.
          \<exists>r. run_single_test user_func (fst c) (snd c) default_timeout = Some (Inr r))
        \<and> {..<length test_cases} \<subseteq> set order \<longrightarrow>
        (\<exists>results. run_all_tests order user_func test_cases = Some (Inr results)))"
proof -
  let ?tasks = "map (\<lambda>(inp, out). run_single_test user_func inp out default_timeout) test_cases"
  have first: "length results = length test_cases \<and>
      (\<forall>i<length test_cases.
         input (results ! i) = fst (test_cases ! i) \<and>
         expected (results ! i) = snd (test_cases ! i) \<and>
         run_single_test user_func (fst (test_cases ! i)) (snd (test_cases ! i))
           default_timeout = Some (Inr (results ! i)))"
    if run: "run_all_tests order user_func test_cases = Some (Inr results)" for results
  proof -
    from run_all_tests_each [OF run]
    have len: "length results = length test_cases"
      and each: "\<forall>i<length test_cases.
        run_single_test user_func (fst (test_cases ! i)) (snd (test_cases ! i)) default_timeout
        = Some (Inr (results ! i))"
      by simp_all
    have "input (results ! i) = fst (test_cases ! i) \<and>
          expected (results ! i) = snd (test_cases ! i) \<and>
          run_single_test user_func (fst (test_cases ! i)) (snd (test_cases ! i))
            default_timeout = Some (Inr (results ! i))"
      if i: "i < length test_cases" for i
    proof -
      from each i have single:
        "run_single_test user_func (fst (test_cases ! i)) (snd (test_cases ! i)) default_timeout
         = Some (Inr (results ! i))"
        by blast
      from run_single_test_fields [OF single] single show ?thesis by simp
    qed
    with len show ?thesis by blast
  qed
  have second: "\<exists>results. run_all_tests order user_func test_cases = Some (Inr results)"
    if h: "(\<forall>c\<in>set test_cases.
          \<exists>r. run_single_test user_func (fst c) (snd c) default_timeout = Some (Inr r))
        \<and> {..<length test_cases} \<subseteq> set order"
  proof -
    have "\<forall>i<length ?tasks. \<exists>r. ?tasks ! i = Some (Inr r)"
      using h by (auto simp: case_prod_beta)
    moreover have "{..<length ?tasks} \<subseteq> set order" using h by simp
    ultimately have "\<exists>results. gather order ?tasks = Some (Inr results)"
      by (rule gather_returns)
    then show ?thesis by (simp add: run_all_tests_def)
  qed
  from first second show ?thesis by blast
qed

theorem run_all_tests_preserves_order_witness:
  "run_all_tests [1, 0, 2]
     (\<lambda>x. if x = PList [] then Completes (Return (PInt 0)) (1 / 10) True
           else if x = PList [PInt 2, PInt 4, PInt 6] then Completes (Return (PInt 56)) (3 / 10) True
           else Completes (Return (PInt 20)) (1 / 5) True)
     [(PList [PInt 1, PInt 2, PInt 3, PInt 4], PInt 20), (PList [], PInt 0),
      (PList [PInt 2, PInt 4, PInt 6], PInt 56)]
   = Some (Inr
      [\<lparr>input = PList [PInt 1, PInt 2, PInt 3, PInt 4], expected = PInt 20, result = PInt 20,
        passed = True, time = Some (1 / 5), error = None\<rparr>,
       \<lparr>input = PList [], expected = PInt 0, result = PInt 0,
        passed = True, time = Some (1 / 10), error = None\<rparr>,
       \<lparr>input = PList [PInt 2, PInt 4, PInt 6], expected = PInt 56, result = PInt 56,
        passed = True, time = Some (3 / 10), error = None\<rparr>])
   \<and> length
       [\<lparr>input = PList [PInt 1, PInt 2, PInt 3, PInt 4], expected = PInt 20, result = PInt 20,
         passed = True, time = Some (1 / 5), error = None\<rparr>,
        \<lparr>input = PList [], expected = PInt 0, result = PInt 0,
         passed = True, time = Some (1 / 10), error = None\<rparr>,
        \<lparr>input = PList [PInt 2, PInt 4, PInt 6], expected = PInt 56, result = PInt 56,
         passed = True, time = Some (3 / 10), error = None\<rparr>]
     = length [(PList [PInt 1, PInt 2, PInt 3, PInt 4], PInt 20), (PList [], PInt 0),
               (PList [PInt 2, PInt 4, PInt 6], PInt 56)]"
proof -
  let ?f = "\<lambda>x. if x = PList [] then Completes (Return (PInt 0)) (1 / 10) True
           else if x = PList [PInt 2, PInt 4, PInt 6] then Completes (Return (PInt 56)) (3 / 10) True
           else Completes (Return (PInt 20)) (1 / 5) True"
  let ?cases = "[(PList [PInt 1, PInt 2, PInt 3, PInt 4], PInt 20), (PList [], PInt 0),
      (PList [PInt 2, PInt 4, PInt 6], PInt 56)]"
  let ?results = "[\<lparr>input = PList [PInt 1, PInt 2, PInt 3, PInt 4], expected = PInt 20, result = PInt 20,
        passed = True, time = Some (1 / 5), error = None\<rparr>,
       \<lparr>input = PList [], expected = PInt 0, result = PInt 0,
        passed = True, time = Some (1 / 10), error = None\<rparr>,
       \<lparr>input = PList [PInt 2, PInt 4, PInt 6], expected = PInt 56, result = PInt 56,
        passed = True, time = Some (3 / 10), error = None\<rparr>]"
  have run: "run_all_tests [1, 0, 2] ?f ?cases = Some (Inr ?results)"
    by (simp add: run_all_tests_def gather_def run_single_test_def default_timeout_def)
  have each: "(\<forall>c\<in>set ?cases.
                \<exists>r. run_single_test ?f (fst c) (snd c) default_timeout = Some (Inr r))
              \<and> {..<length ?cases} \<subseteq> set [1, 0, 2]"
    by (auto simp: run_single_test_def default_timeout_def)
  from run_all_tests_preserves_order [of "[1, 0, 2]" ?f ?cases] each
  obtain results where "run_all_tests [1, 0, 2] ?f ?cases = Some (Inr results)"
    and "length results = length ?cases"
    by blast
  with run show ?thesis by simp
qed

text \<open>
  The harness on a loop that leaves every call alone is the harness above.
\<close>

lemma run_single_test_awaited_alone:
  "run_single_test user_func input_data expected_output timeout
   = run_single_test_awaited (wait_for (user_func input_data) timeout) input_data
       expected_output"
  by (simp add: run_single_test_def run_single_test_awaited_def)

lemma run_all_tests_awaited_alone:
  "run_all_tests order user_func test_cases
   = run_all_tests_awaited order
       (map (\<lambda>c. wait_for (user_func (fst c)) default_timeout) test_cases) test_cases"
proof -
  have "map (\<lambda>((inp, out), a). run_single_test_awaited a inp out)
          (zip cs (map (\<lambda>c. wait_for (user_func (fst c)) default_timeout) cs))
        = map (\<lambda>(inp, out). run_single_test user_func inp out default_timeout) cs" for cs
    by (induction cs) (auto simp: run_single_test_awaited_alone)
  then show ?thesis by (simp add: run_all_tests_def run_all_tests_awaited_def)
qed





text \<open>
  A call that \<^verbatim>\<open>asyncio.wait_for\<close> can cancel and that takes longer than the
  timeout, or never finishes, is recorded as timed out: no value, no elapsed time,
  \<^verbatim>\<open>passed\<close> false.
\<close>

lemma cancellable_call_times_out:
  assumes "user_func input_data = Completes c d True \<and> timeout < d
           \<or> user_func input_data = Never True"
  shows "run_single_test user_func input_data expected_output timeout
         = Some (Inr \<lparr>input = input_data, expected = expected_output, result = PNone,
                      passed = False, time = None, error = Some timeout_error_text\<rparr>)"
  using assms unfolding run_single_test_def timed_out_result_def
  by auto

text \<open>
  Claim C6 at a failing input. The graded function holds the event loop for 5 seconds
  (\<^verbatim>\<open>time.sleep(5)\<close>) and then returns the expected value; the case runs under the
  default timeout of 3 seconds. \<^verbatim>\<open>asyncio.wait_for\<close> cannot interrupt the call, the
  \<^verbatim>\<open>await\<close> comes back with the value, and the case is recorded as a success that
  took 5 seconds, where the docstring of \<^verbatim>\<open>run_single_test\<close> calls \<^verbatim>\<open>timeout\<close> the
  maximal execution time.
\<close>

theorem blocking_call_recorded_as_success:
  "run_single_test (\<lambda>x. Completes (Return (PInt 20)) 5 False)
       (PList [PInt 1, PInt 2, PInt 3, PInt 4]) (PInt 20) default_timeout
     = Some (Inr \<lparr>input = PList [PInt 1, PInt 2, PInt 3, PInt 4], expected = PInt 20,
                  result = PInt 20, passed = True, time = Some 5, error = None\<rparr>)"
  by (simp add: run_single_test_def default_timeout_def)

section \<open>Properties of \<^verbatim>\<open>validate_user_code\<close>\<close>




section \<open>Properties of \<^verbatim>\<open>run_with_timeout\<close>\<close>

lemmas runner_defs =
  run_with_timeout_def run_user_code_in_process_def join_process_def join_timeout_def
  wait_until_def is_alive_def dies_at_def killed_at_def terminate_def join_def
  delivered_def worker_put_def Queue_def queue_put_def queue_empty_def queue_get_def

text \<open>
  Claim C2, as the code has it. A worker that ends by itself within the deadline
  without a message on the queue (its function left through an exception that is not
  an \<^verbatim>\<open>Exception\<close>, such as \<^verbatim>\<open>SystemExit\<close>) makes \<^verbatim>\<open>run_with_timeout\<close> return the
  tuple with the tag \<^verbatim>\<open>"error"\<close> and the text "no result" (in Russian), at the time
  the worker ended.
\<close>

theorem clean_exit_without_message:
  assumes "process_data input_data = Completes (Raise e) d k"
    and "\<not> is_Exception (cls e)"
    and "0 \<le> d" and "d \<le> timeout_sec"
  shows "fst (run_with_timeout process_data term_delay h user_code_str input_data timeout_sec)
         = Some ((tag_error, PStr no_result_text), d)"
  using assms by (simp add: runner_defs Let_def min_def max_def)

theorem clean_exit_without_message_witness:
  "fst (run_with_timeout
          (\<lambda>x. Completes (Raise \<lparr>cls = SystemExitC, str_e = [], tb = []\<rparr>) (1 / 2) True)
          (Some (1 / 100)) [] [] (PList [PInt 1, PInt 2, PInt 3, PInt 4]) 1)
   = Some ((tag_error, PStr no_result_text), 1 / 2)"
  using clean_exit_without_message
    [where process_data = "\<lambda>x. Completes (Raise \<lparr>cls = SystemExitC, str_e = [], tb = []\<rparr>) (1 / 2) True"
       and input_data = "PList [PInt 1, PInt 2, PInt 3, PInt 4]"
       and e = "\<lparr>cls = SystemExitC, str_e = [], tb = []\<rparr>" and d = "1 / 2" and k = True
       and timeout_sec = 1 and term_delay = "Some (1 / 100)" and h = "[]"
       and user_code_str = "[]"]
  by simp

text \<open>
  The claim asks for an outcome of a kind of its own. The code returns the generic
  error tag: the outcome of a worker that ended without a message is the same tuple as
  the outcome of a worker whose function raised an exception with that text.
\<close>

theorem no_result_is_an_error_counterexample:
  "fst (run_with_timeout
          (\<lambda>x. Completes (Raise \<lparr>cls = SystemExitC, str_e = [], tb = []\<rparr>) (1 / 2) True)
          (Some (1 / 100)) [] [] (PList [PInt 1, PInt 2, PInt 3, PInt 4]) 1)
   = fst (run_with_timeout
          (\<lambda>x. Completes (Raise \<lparr>cls = ExceptionC, str_e = no_result_text, tb = []\<rparr>) (1 / 2) True)
          (Some (1 / 100)) [] [] (PList [PInt 1, PInt 2, PInt 3, PInt 4]) 1)
   \<and> fst (run_with_timeout
          (\<lambda>x. Completes (Raise \<lparr>cls = SystemExitC, str_e = [], tb = []\<rparr>) (1 / 2) True)
          (Some (1 / 100)) [] [] (PList [PInt 1, PInt 2, PInt 3, PInt 4]) 1)
   = Some ((tag_error, PStr no_result_text), 1 / 2)"
  by (simp add: runner_defs Let_def)

text \<open>
  Claim C3 at a failing input. The function never returns, the deadline is 1 second
  and the worker is gone 10 milliseconds after SIGTERM. The watchdog thread ends the
  worker at the deadline and finishes; the caller's \<^verbatim>\<open>thread.join\<close> returns, the
  process is no longer alive, the queue is empty, and the function returns the error
  tuple "no result" instead of the timeout tuple its docstring promises.
\<close>

theorem watchdog_termination_reports_error:
  "fst (run_with_timeout (\<lambda>x. Never False) (Some (1 / 100)) [] []
          (PList [PInt 1, PInt 2, PInt 3, PInt 4]) 1)
   = Some ((tag_error, PStr no_result_text), 101 / 100)"
  by (simp add: runner_defs Let_def)

text \<open>
  The timeout tuple is returned when the worker outlives the grace of 0.1 seconds, so
  that the caller finds it alive and ends it itself.
\<close>

lemma caller_termination_reports_timeout:
  "fst (run_with_timeout (\<lambda>x. Never False) (Some (1 / 2)) [] []
          (PList [PInt 1, PInt 2, PInt 3, PInt 4]) 1)
   = Some ((tag_timeout, PStr timeout_text), 3 / 2)"
  by (simp add: runner_defs Let_def)

text \<open>
  Claim C8 at a failing input. The function never returns and the worker does not
  react to SIGTERM. After \<^verbatim>\<open>thread.join(timeout_sec + 0.1)\<close> the caller finds the
  process alive, calls \<^verbatim>\<open>p.terminate()\<close> and then \<^verbatim>\<open>p.join()\<close> without a timeout:
  the function never returns.
\<close>

theorem unbounded_join_blocks_caller:
  "fst (run_with_timeout (\<lambda>x. Never False) None [] []
          (PList [PInt 1, PInt 2, PInt 3, PInt 4]) 1)
   = None"
  by (simp add: runner_defs Let_def)

text \<open>
  Claim C10. \<^verbatim>\<open>run_with_timeout\<close> does not depend on its source-text argument: for
  any two texts the result and the store are the same. What the worker does is what
  the module-level \<^verbatim>\<open>process_data\<close> does on the input: whatever the text, the worker
  puts the value \<^verbatim>\<open>process_data\<close> returns on the queue under the tag
  \<^verbatim>\<open>"result"\<close>, or the text of the exception it raises under the tag \<^verbatim>\<open>"error"\<close>; and
  a scalar value returned within the deadline is what \<^verbatim>\<open>run_with_timeout\<close> returns.
\<close>

theorem source_text_is_ignored:
  "run_with_timeout process_data term_delay h s1 input_data timeout_sec
     = run_with_timeout process_data term_delay h s2 input_data timeout_sec
   \<and> (process_data input_data = Completes (Return v) d k \<longrightarrow>
        puts_message (run_user_code_in_process process_data queue s1 input_data)
        = Some (tag_result, v))
   \<and> (process_data input_data = Completes (Raise e) d k \<and> is_Exception (cls e) \<longrightarrow>
        puts_message (run_user_code_in_process process_data queue s1 input_data)
        = Some (tag_error, PStr (str_e e)))
   \<and> (process_data input_data = Completes (Return v) d k \<and> scalar v \<and> 0 \<le> d
        \<and> d \<le> timeout_sec \<longrightarrow>
        fst (run_with_timeout process_data term_delay h s1 input_data timeout_sec)
        = Some ((tag_result, v), d))"
proof -
  have same: "run_with_timeout process_data term_delay h s1 input_data timeout_sec
     = run_with_timeout process_data term_delay h s2 input_data timeout_sec"
    by (simp add: run_with_timeout_def run_user_code_in_process_def)
  have worker: "puts_message (run_user_code_in_process process_data queue s1 input_data)
        = Some (tag_result, v)"
    if "process_data input_data = Completes (Return v) d k"
    using that by (simp add: run_user_code_in_process_def)
  have failing: "puts_message (run_user_code_in_process process_data queue s1 input_data)
        = Some (tag_error, PStr (str_e e))"
    if "process_data input_data = Completes (Raise e) d k \<and> is_Exception (cls e)"
    using that by (simp add: run_user_code_in_process_def)
  have outcome: "fst (run_with_timeout process_data term_delay h s1 input_data timeout_sec)
        = Some ((tag_result, v), d)"
    if "process_data input_data = Completes (Return v) d k \<and> scalar v \<and> 0 \<le> d
        \<and> d \<le> timeout_sec"
    using that by (simp add: runner_defs Let_def min_def max_def)
  from same worker failing outcome show ?thesis by blast
qed

theorem source_text_is_ignored_witness:
  "run_with_timeout (\<lambda>x. Completes (Return (PInt 20)) (1 / 2) True) (Some (1 / 100)) []
       [112, 97, 115, 115] (PList [PInt 1, PInt 2, PInt 3, PInt 4]) 1
     = run_with_timeout (\<lambda>x. Completes (Return (PInt 20)) (1 / 2) True) (Some (1 / 100)) []
       [120, 32, 61, 32, 49] (PList [PInt 1, PInt 2, PInt 3, PInt 4]) 1
   \<and> fst (run_with_timeout (\<lambda>x. Completes (Return (PInt 20)) (1 / 2) True) (Some (1 / 100)) []
       [112, 97, 115, 115] (PList [PInt 1, PInt 2, PInt 3, PInt 4]) 1)
     = Some ((tag_result, PInt 20), 1 / 2)
   \<and> puts_message (run_user_code_in_process
        (\<lambda>x. Completes (Raise \<lparr>cls = ExceptionC, str_e = [98, 111, 111, 109], tb = []\<rparr>)
                (1 / 2) True) 0 [112, 97, 115, 115] (PList [PInt 1, PInt 2, PInt 3, PInt 4]))
     = Some (tag_error, PStr [98, 111, 111, 109])"
proof -
  note a = source_text_is_ignored
    [where process_data = "\<lambda>x. Completes (Return (PInt 20)) (1 / 2) True"
       and term_delay = "Some (1 / 100)" and h = "[]" and ?s1.0 = "[112, 97, 115, 115]"
       and ?s2.0 = "[120, 32, 61, 32, 49]"
       and input_data = "PList [PInt 1, PInt 2, PInt 3, PInt 4]" and timeout_sec = 1
       and v = "PInt 20" and d = "1 / 2" and k = True and queue = 0]
  note b = source_text_is_ignored
    [where process_data = "\<lambda>x. Completes (Raise \<lparr>cls = ExceptionC,
              str_e = [98, 111, 111, 109], tb = []\<rparr>) (1 / 2) True"
       and term_delay = "Some (1 / 100)" and h = "[]" and ?s1.0 = "[112, 97, 115, 115]"
       and ?s2.0 = "[120, 32, 61, 32, 49]"
       and input_data = "PList [PInt 1, PInt 2, PInt 3, PInt 4]" and timeout_sec = 1
       and e = "\<lparr>cls = ExceptionC, str_e = [98, 111, 111, 109], tb = []\<rparr>"
       and d = "1 / 2" and k = True and queue = 0]
  have ha: "Completes (Return (PInt 20)) (1 / 2) True = Completes (Return (PInt 20)) (1 / 2) True
            \<and> scalar (PInt 20) \<and> (0::rat) \<le> 1 / 2 \<and> (1 / 2 :: rat) \<le> 1"
    by simp
  have hb: "Completes (Raise \<lparr>cls = ExceptionC, str_e = [98, 111, 111, 109], tb = []\<rparr>)
              (1 / 2) True
            = Completes (Raise \<lparr>cls = ExceptionC, str_e = [98, 111, 111, 109], tb = []\<rparr>)
              (1 / 2) True
            \<and> is_Exception (cls \<lparr>cls = ExceptionC, str_e = [98, 111, 111, 109], tb = []\<rparr>)"
    by simp
  note same = a [THEN conjunct1]
  note outcome = a [THEN conjunct2, THEN conjunct2, THEN conjunct2, THEN mp, OF ha]
  note put = b [THEN conjunct2, THEN conjunct2, THEN conjunct1, THEN mp, OF hb,
      simplified pyexc.simps]
  from same outcome put show ?thesis by (intro conjI)
qed

text \<open>
  The store after a call is the store before it with one queue appended, and what the
  call returns does not depend on the store before it.
\<close>

lemma run_with_timeout_store:
  "run_with_timeout process_data term_delay h user_code_str input_data timeout_sec
   = (fst (run_with_timeout process_data term_delay [] user_code_str input_data timeout_sec),
      h @ snd (run_with_timeout process_data term_delay [] user_code_str input_data
                 timeout_sec))"
proof -
  have w: "run_user_code_in_process process_data q user_code_str input_data
           = run_user_code_in_process process_data 0 user_code_str input_data" for q
    by (simp add: run_user_code_in_process_def)
  obtain p1 thread_end where jp:
    "join_process term_delay
       \<lparr>target = run_user_code_in_process process_data 0 user_code_str input_data,
        sigterm_at = None\<rparr> timeout_sec = (p1, thread_end)"
    by (cases "join_process term_delay
       \<lparr>target = run_user_code_in_process process_data 0 user_code_str input_data,
        sigterm_at = None\<rparr> timeout_sec")
  show ?thesis
    unfolding run_with_timeout_def Queue_def
    by (simp add: w [of "length h"] jp Let_def worker_put_def queue_put_def queue_empty_def
          queue_get_def split: option.splits)
qed

lemma run_with_timeout_queue:
  "\<exists>q. snd (run_with_timeout process_data term_delay [] user_code_str input_data timeout_sec)
        = [q] \<and> puts q \<le> 1 \<and> gets q \<le> 1"
proof -
  obtain p1 thread_end where jp:
    "join_process term_delay
       \<lparr>target = run_user_code_in_process process_data 0 user_code_str input_data,
        sigterm_at = None\<rparr> timeout_sec = (p1, thread_end)"
    by (cases "join_process term_delay
       \<lparr>target = run_user_code_in_process process_data 0 user_code_str input_data,
        sigterm_at = None\<rparr> timeout_sec")
  show ?thesis
    unfolding run_with_timeout_def Queue_def
    by (simp add: jp Let_def worker_put_def queue_put_def queue_empty_def
          queue_get_def split: option.splits)
qed

text \<open>
  Claim C9. Whatever earlier invocations left in the store, \<^verbatim>\<open>run_with_timeout\<close>
  returns what it returns on the empty store, so nothing of an earlier invocation is
  observed; it creates one new queue and leaves the earlier queues as they were; and
  its queue sees at most one \<^verbatim>\<open>put\<close> and at most one \<^verbatim>\<open>get\<close>.
\<close>

theorem queue_is_single_use:
  "fst (run_with_timeout process_data term_delay h user_code_str input_data timeout_sec)
     = fst (run_with_timeout process_data term_delay [] user_code_str input_data timeout_sec)
   \<and> length (snd (run_with_timeout process_data term_delay h user_code_str input_data
                    timeout_sec)) = Suc (length h)
   \<and> take (length h) (snd (run_with_timeout process_data term_delay h user_code_str
                    input_data timeout_sec)) = h
   \<and> puts (snd (run_with_timeout process_data term_delay h user_code_str input_data
                    timeout_sec) ! length h) \<le> 1
   \<and> gets (snd (run_with_timeout process_data term_delay h user_code_str input_data
                    timeout_sec) ! length h) \<le> 1"
proof -
  from run_with_timeout_queue [of process_data term_delay user_code_str input_data timeout_sec]
  obtain q where q:
    "snd (run_with_timeout process_data term_delay [] user_code_str input_data timeout_sec)
     = [q]" "puts q \<le> 1" "gets q \<le> 1"
    by blast
  have "run_with_timeout process_data term_delay h user_code_str input_data timeout_sec
        = (fst (run_with_timeout process_data term_delay [] user_code_str input_data
                  timeout_sec), h @ [q])"
    using run_with_timeout_store [of process_data term_delay h] q(1) by simp
  with q(2) q(3) show ?thesis by simp
qed

end
